theory Spec2Isabelle
  imports Complex_Main "HOL-Library.Product_Lexorder" "HOL-Library.Multiset"
begin

section \<open>Errors and results\<close>

text \<open>
  Every \<^verbatim>\<open>throw\<close> and every rejected promise of the TypeScript sources is a value
  of type \<open>error\<close>; a function that may throw returns \<open>error + 'a\<close>, with \<open>Inl\<close> the
  error.  \<open>Error msg\<close> is \<^verbatim>\<open>new Error(msg)\<close>; \<open>TypeError\<close> is what a property read
  on \<^verbatim>\<open>null\<close> or \<^verbatim>\<open>undefined\<close> throws; \<open>RangeError\<close> is what
  \<^verbatim>\<open>String.prototype.repeat\<close> throws for a negative count (the messages of these two
  are worded as V8 words them); \<open>ParserError\<close> stands for the exceptions of the two
  external parsers; \<open>EngineError\<close> for a rejection of one of the delegated validation
  engines or of the file system; \<open>Thrown\<close> for a thrown value that is not an instance
  of \<^verbatim>\<open>Error\<close>.
\<close>

datatype error =
    Error string
  | TypeError string
  | RangeError string
  | ParserError string
  | EngineError string
  | Thrown string

fun errorMessage :: "error \<Rightarrow> string" where
  "errorMessage (Error m) = m"
| "errorMessage (TypeError m) = m"
| "errorMessage (RangeError m) = m"
| "errorMessage (ParserError m) = m"
| "errorMessage (EngineError m) = m"
| "errorMessage (Thrown v) = []"

text \<open>\<^verbatim>\<open>is.error\<close> of @sindresorhus/is: whether a caught value is an instance of
  \<^verbatim>\<open>Error\<close>.\<close>

fun isError :: "error \<Rightarrow> bool" where
  "isError (Thrown v) = False"
| "isError e = True"

definition bindE :: "error + 'a \<Rightarrow> ('a \<Rightarrow> error + 'b) \<Rightarrow> error + 'b" where
  "bindE m f = (case m of Inl e \<Rightarrow> Inl e | Inr v \<Rightarrow> f v)"

text \<open>A callback applied to the elements of an array from left to right; the first
  exception ends the traversal.\<close>

fun mapE :: "('a \<Rightarrow> error + 'b) \<Rightarrow> 'a list \<Rightarrow> error + 'b list" where
  "mapE f [] = Inr []"
| "mapE f (x # xs) = bindE (f x) (\<lambda>y. bindE (mapE f xs) (\<lambda>ys. Inr (y # ys)))"

section \<open>Lint messages and per-file results (source/index.ts)\<close>

record LintMessage =
  path :: "string list"
  message :: string
  rule :: string
  line :: int

text \<open>The four buckets of a \<^verbatim>\<open>Result\<close> are optional properties: \<open>None\<close> is an absent
  property.\<close>

record Result =
  version :: string
  errors :: "LintMessage list option"
  warnings :: "LintMessage list option"
  infos :: "LintMessage list option"
  hints :: "LintMessage list option"

text \<open>The objects built by the \<^verbatim>\<open>results.map\<close> step of \<^verbatim>\<open>formatResults\<close>: all four
  arrays are present.\<close>

record SortedResult =
  sversion :: string
  serrors :: "LintMessage list"
  swarnings :: "LintMessage list"
  sinfos :: "LintMessage list"
  shints :: "LintMessage list"

section \<open>Library functions used by the formatter\<close>

text \<open>\<^verbatim>\<open>numberSortAscending\<close> of num-sort, on numbers that are integers.\<close>

definition numberSortAscending :: "int \<Rightarrow> int \<Rightarrow> int" where
  "numberSortAscending left right = left - right"

text \<open>
  \<^verbatim>\<open>Array.prototype.sort(compare)\<close>: a stable sort (ECMAScript 2019, Node 11 and later;
  the package requires Node 14.14).  For a consistent comparison function the sorted
  array is determined by stability alone, so a stable insertion sort computes it:
  an element is placed before the first later element it does not follow.
\<close>

fun insort_cmp :: "('a \<Rightarrow> 'a \<Rightarrow> int) \<Rightarrow> 'a \<Rightarrow> 'a list \<Rightarrow> 'a list" where
  "insort_cmp c x [] = [x]"
| "insort_cmp c x (y # ys) = (if c x y \<le> 0 then x # y # ys else y # insort_cmp c x ys)"

definition array_sort :: "('a \<Rightarrow> 'a \<Rightarrow> int) \<Rightarrow> 'a list \<Rightarrow> 'a list" where
  "array_sort c xs = foldr (insort_cmp c) xs []"

text \<open>\<^verbatim>\<open>lastItem\<close> of last-item: the last element, \<^verbatim>\<open>undefined\<close> for an empty array.\<close>

definition lastItem :: "'a list \<Rightarrow> 'a option" where
  "lastItem xs = (if xs = [] then None else Some (last xs))"

text \<open>\<^verbatim>\<open>Array.prototype.join\<close>.\<close>

fun join :: "string \<Rightarrow> string list \<Rightarrow> string" where
  "join sep [] = []"
| "join sep [x] = x"
| "join sep (x # y # ys) = x @ sep @ join sep (y # ys)"

text \<open>\<^verbatim>\<open>Number.prototype.toString\<close> on integers: decimal digits, a minus sign first for
  a negative number.\<close>

definition digitChar :: "nat \<Rightarrow> char" where
  "digitChar d = ''0123456789'' ! d"

function digits :: "nat \<Rightarrow> string" where
  "digits n = (if n < 10 then [digitChar n] else digits (n div 10) @ [digitChar (n mod 10)])"
  by pat_completeness auto
termination
  by (relation "measure id") auto

declare digits.simps [simp del]

definition toString :: "int \<Rightarrow> string" where
  "toString i = (if i < 0 then CHR ''-'' # digits (nat (- i)) else digits (nat i))"

text \<open>\<^verbatim>\<open>String.prototype.repeat\<close>: a negative count throws a RangeError.\<close>

definition repeat :: "string \<Rightarrow> int \<Rightarrow> error + string" where
  "repeat s n =
     (if n < 0 then Inl (RangeError (''Invalid count value: '' @ toString n))
      else Inr (concat (replicate (nat n) s)))"

text \<open>\<^verbatim>\<open>plur(word, count)\<close> of plur, for a regular noun: the word itself when the count
  is 1, the word with an \<^verbatim>\<open>s\<close> otherwise.\<close>

definition plur :: "string \<Rightarrow> nat \<Rightarrow> string" where
  "plur word n = (if n = 1 then word else word @ ''s'')"

definition newline :: string where
  "newline = [CHR 0x0A]"

section \<open>The terminal: what the formatter takes from its environment\<close>

datatype logSymbol = info | success | warning | error

text \<open>
  The external presentation libraries are parameters of the model: \<open>isTTY\<close> is
  \<^verbatim>\<open>process.stdout.isTTY\<close>, \<open>CI\<close> the truthiness of \<^verbatim>\<open>process.env.CI\<close>, \<open>setCwd\<close> the
  escape sequence \<^verbatim>\<open>ansiEscapes.iTerm.setCwd()\<close>, \<open>stringWidth\<close> the string-width
  function (the number of terminal columns of a string), \<open>underline\<close>, \<open>grey\<close>,
  \<open>cyan\<close>, \<open>yellow\<close>, \<open>red\<close> the chalk styles, \<open>logSymbols\<close> the table of log-symbols,
  \<open>inspect\<close> how \<^verbatim>\<open>console.log\<close> prints the array of results.
\<close>

record terminal =
  isTTY :: bool
  CI :: bool
  setCwd :: string
  stringWidth :: "string \<Rightarrow> nat"
  underline :: "string \<Rightarrow> string"
  grey :: "string \<Rightarrow> string"
  cyan :: "string \<Rightarrow> string"
  yellow :: "string \<Rightarrow> string"
  red :: "string \<Rightarrow> string"
  logSymbols :: "logSymbol \<Rightarrow> string"
  inspect :: "(string \<times> Result) list \<Rightarrow> string"

section \<open>formatLine and formatResults (source/index.ts)\<close>

definition formatLine ::
  "terminal \<Rightarrow> logSymbol \<Rightarrow> nat \<Rightarrow> nat \<Rightarrow> LintMessage \<Rightarrow> error + string" where
  "formatLine t type maxLineWidth maxMessageWidth m =
     bindE (repeat '' '' (int maxLineWidth - int (stringWidth t (toString (line m))))) (\<lambda>pad1.
     bindE (repeat '' '' (int maxMessageWidth - int (stringWidth t (message m)))) (\<lambda>pad2.
       Inr (logSymbols t type @ '' '' @ pad1 @ grey t (toString (line m)) @ '' '' @ message m
            @ pad2 @ '' '' @ grey t (rule m))))"

text \<open>The destructuring default \<^verbatim>\<open>errors = []\<close>: an absent property reads as a fresh empty
  array.\<close>

definition orEmpty :: "'a list option \<Rightarrow> 'a list" where
  "orEmpty v = (case v of None \<Rightarrow> [] | Some xs \<Rightarrow> xs)"

definition byLine :: "LintMessage \<Rightarrow> LintMessage \<Rightarrow> int" where
  "byLine a b = numberSortAscending (line a) (line b)"

text \<open>The callback of \<^verbatim>\<open>results.map\<close>: the new result object of a file.\<close>

definition sortBuckets :: "Result \<Rightarrow> SortedResult" where
  "sortBuckets r =
     \<lparr> sversion = version r,
       serrors = array_sort byLine (orEmpty (errors r)),
       swarnings = array_sort byLine (orEmpty (warnings r)),
       sinfos = array_sort byLine (orEmpty (infos r)),
       shints = array_sort byLine (orEmpty (hints r)) \<rparr>"

text \<open>
  \<^verbatim>\<open>Array.prototype.sort\<close> sorts the array it is called on.  A bucket that is present in
  the caller's \<^verbatim>\<open>Result\<close> is that very array, so the caller's object holds the sorted
  array after the call; an absent bucket stays absent (the default array is a fresh one).
  Sorting is by content and idempotent, so two buckets that are one shared array end
  the same way.
\<close>

definition sortedInPlace :: "Result \<Rightarrow> Result" where
  "sortedInPlace r =
     r \<lparr> errors := map_option (array_sort byLine) (errors r),
         warnings := map_option (array_sort byLine) (warnings r),
         infos := map_option (array_sort byLine) (infos r),
         hints := map_option (array_sort byLine) (hints r) \<rparr>"

text \<open>The six accumulators of \<^verbatim>\<open>formatResults\<close> and one turn of its \<^verbatim>\<open>for ... of\<close>
  loop.\<close>

record counters =
  totalErrors :: nat
  totalWarnings :: nat
  totalInfos :: nat
  totalHints :: nat
  maxLineWidth :: nat
  maxMessageWidth :: nat

definition lastLineWidth :: "terminal \<Rightarrow> LintMessage list \<Rightarrow> nat" where
  "lastLineWidth t ms =
     (case lastItem ms of None \<Rightarrow> 0 | Some m \<Rightarrow> stringWidth t (toString (line m)))"

definition tally :: "terminal \<Rightarrow> counters \<Rightarrow> SortedResult \<Rightarrow> counters" where
  "tally t c r =
     \<lparr> totalErrors = totalErrors c + length (serrors r),
       totalWarnings = totalWarnings c + length (swarnings r),
       totalInfos = totalInfos c + length (sinfos r),
       totalHints = totalHints c + length (shints r),
       maxLineWidth =
         max (lastLineWidth t (serrors r))
          (max (lastLineWidth t (swarnings r))
            (max (lastLineWidth t (sinfos r))
              (max (lastLineWidth t (shints r)) (maxLineWidth c)))),
       maxMessageWidth =
         foldl (\<lambda>w m. max (stringWidth t (message m)) w) (maxMessageWidth c)
           (serrors r @ swarnings r) \<rparr>"

definition zeroCounters :: counters where
  "zeroCounters =
     \<lparr> totalErrors = 0, totalWarnings = 0, totalInfos = 0, totalHints = 0,
       maxLineWidth = 0, maxMessageWidth = 0 \<rparr>"

definition countAll :: "terminal \<Rightarrow> (string \<times> SortedResult) list \<Rightarrow> counters" where
  "countAll t rs = foldl (\<lambda>c fr. tally t c (snd fr)) zeroCounters rs"

text \<open>The comparison function of \<^verbatim>\<open>results.sort\<close>.\<close>

definition compareResults :: "string \<times> SortedResult \<Rightarrow> string \<times> SortedResult \<Rightarrow> int" where
  "compareResults fa fb =
     (let a = snd fa; b = snd fb in
      if length (serrors a) = length (serrors b) then
        if length (swarnings a) = length (swarnings b) then
          if length (sinfos a) = length (sinfos b) then
            int (length (shints b)) - int (length (shints a))
          else int (length (sinfos b)) - int (length (sinfos a))
        else int (length (swarnings b)) - int (length (swarnings a))
      else int (length (serrors b)) - int (length (serrors a)))"

text \<open>The template of one file's block: the underlined file name, then the lines of
  the hints, the infos, the warnings and the errors, joined by newlines.\<close>

definition formatBlock ::
  "terminal \<Rightarrow> nat \<Rightarrow> nat \<Rightarrow> string \<times> SortedResult \<Rightarrow> error + string" where
  "formatBlock t mlw mmw fr =
     (let file = fst fr; r = snd fr in
      bindE (mapE (formatLine t info mlw mmw) (shints r)) (\<lambda>hs.
      bindE (mapE (formatLine t info mlw mmw) (sinfos r)) (\<lambda>is.
      bindE (mapE (formatLine t warning mlw mmw) (swarnings r)) (\<lambda>ws.
      bindE (mapE (formatLine t error mlw mmw) (serrors r)) (\<lambda>es.
        Inr (underline t file @ newline @ join newline (hs @ is @ ws @ es) @ newline))))))"

text \<open>The \<^verbatim>\<open>statistics\<close> array and what it adds to the output.\<close>

definition statistics :: "terminal \<Rightarrow> counters \<Rightarrow> string list" where
  "statistics t c =
     (if totalHints c > 0
        then [cyan t (toString (int (totalHints c)) @ '' '' @ plur ''hint'' (totalHints c))]
        else [])
     @ (if totalInfos c > 0
        then [cyan t (toString (int (totalInfos c)) @ '' '' @ plur ''info'' (totalInfos c))]
        else [])
     @ (if totalWarnings c > 0
        then [yellow t (toString (int (totalWarnings c)) @ '' '' @ plur ''warning'' (totalWarnings c))]
        else [])
     @ (if totalErrors c > 0
        then [red t (toString (int (totalErrors c)) @ '' '' @ plur ''error'' (totalErrors c))]
        else [])"

definition statisticsSection :: "terminal \<Rightarrow> counters \<Rightarrow> string" where
  "statisticsSection t c =
     (if length (statistics t c) > 0 then newline @ join newline (statistics t c) else [])"

definition outputStart :: "terminal \<Rightarrow> string" where
  "outputStart t = newline @ (if isTTY t \<and> \<not> CI t then setCwd t else [])"

text \<open>
  \<^verbatim>\<open>formatResults\<close>.  The first component is what the call returns or throws; the
  second is the caller's array of results as the call leaves it.
\<close>

definition formatResults ::
  "terminal \<Rightarrow> (string \<times> Result) list \<Rightarrow> (error + string) \<times> (string \<times> Result) list" where
  "formatResults t results =
     (let sorted = map (\<lambda>fr. (fst fr, sortBuckets (snd fr))) results;
          c = countAll t sorted
      in (if totalErrors c + totalWarnings c + totalInfos c + totalHints c = 0 then Inr []
          else bindE (mapE (formatBlock t (maxLineWidth c) (maxMessageWidth c))
                        (array_sort compareResults sorted)) (\<lambda>blocks.
                 Inr (outputStart t @ join newline blocks @ statisticsSection t c)),
          map (\<lambda>fr. (fst fr, sortedInPlace (snd fr))) results))"

text \<open>A terminal without colours and without iTerm integration, with ASCII stand-ins
  for the three symbols and one column per character; used for the examples.\<close>

definition plainTerminal :: terminal where
  "plainTerminal =
     \<lparr> isTTY = False, CI = False, setCwd = [], stringWidth = length,
       underline = (\<lambda>s. s), grey = (\<lambda>s. s), cyan = (\<lambda>s. s), yellow = (\<lambda>s. s), red = (\<lambda>s. s),
       logSymbols = (\<lambda>s. case s of info \<Rightarrow> ''i'' | success \<Rightarrow> ''v'' | warning \<Rightarrow> ''!'' | error \<Rightarrow> ''x''),
       inspect = (\<lambda>rs. []) \<rparr>"


section \<open>Parsed documents and the configuration\<close>

text \<open>
  A parsed document is what \<^verbatim>\<open>JSON.parse\<close> or the YAML loader returns: \<^verbatim>\<open>null\<close>,
  \<^verbatim>\<open>undefined\<close> (the YAML loader on an empty document), a boolean, a number, a string,
  an array, or an object with its properties in order.  The configuration
  (\<^verbatim>\<open>Options\<close>) is an object of the same kind.
\<close>

datatype json =
    JUndefined
  | JNull
  | JBool bool
  | JNumber rat
  | JNaN
  | JString string
  | JArray "json list"
  | JObject "(string \<times> json) list"

text \<open>Truthiness of a value, as \<^verbatim>\<open>||\<close> and \<^verbatim>\<open>!\<close> test it.\<close>

fun truthy :: "json \<Rightarrow> bool" where
  "truthy JUndefined = False"
| "truthy JNull = False"
| "truthy (JBool b) = b"
| "truthy (JNumber n) = (n \<noteq> 0)"
| "truthy JNaN = False"
| "truthy (JString s) = (s \<noteq> [])"
| "truthy (JArray xs) = True"
| "truthy (JObject kvs) = True"

text \<open>
  The property read \<^verbatim>\<open>data.key\<close>, for a key that no prototype defines (as \<^verbatim>\<open>openapi\<close>
  and \<^verbatim>\<open>swagger\<close>): a TypeError on \<^verbatim>\<open>null\<close> and \<^verbatim>\<open>undefined\<close>, the property's value
  on an object that has it, \<^verbatim>\<open>undefined\<close> otherwise.
\<close>

fun getProp :: "json \<Rightarrow> string \<Rightarrow> error + json" where
  "getProp JUndefined key =
     Inl (TypeError (''Cannot read properties of undefined (reading '' @ [CHR 0x27] @ key @ [CHR 0x27] @ '')''))"
| "getProp JNull key =
     Inl (TypeError (''Cannot read properties of null (reading '' @ [CHR 0x27] @ key @ [CHR 0x27] @ '')''))"
| "getProp (JObject kvs) key = Inr (case map_of kvs key of None \<Rightarrow> JUndefined | Some v \<Rightarrow> v)"
| "getProp v key = Inr JUndefined"

text \<open>\<^verbatim>\<open>defaultConfig\<close> (source/config.ts).\<close>

definition defaultConfig :: json where
  "defaultConfig =
    JObject [
      (''shared'', JObject [
        (''operations'', JObject [
          (''no_operation_id'', JString ''warning''),
          (''operation_id_case_convention'', JArray [JString ''off'', JString ''lower_camel_case'']),
          (''no_summary'', JString ''warning''),
          (''parameter_order'', JString ''error''),
          (''undefined_tag'', JString ''error''),
          (''unused_tag'', JString ''error''),
          (''operation_id_naming_convention'', JString ''off''),
          (''no_array_responses'', JString ''off'')]),
        (''pagination'', JObject [
          (''pagination_style'', JString ''error'')]),
        (''parameters'', JObject [
          (''no_parameter_description'', JString ''hint''),
          (''param_name_case_convention'', JArray [JString ''off'']),
          (''invalid_type_format_pair'', JString ''error''),
          (''content_type_parameter'', JString ''error''),
          (''accept_type_parameter'', JString ''error''),
          (''authorization_parameter'', JString ''error''),
          (''required_param_has_default'', JString ''error'')]),
        (''paths'', JObject [
          (''missing_path_parameter'', JString ''error''),
          (''duplicate_path_parameter'', JString ''error''),
          (''paths_case_convention'', JArray [JString ''off''])]),
        (''responses'', JObject [
          (''inline_response_schema'', JString ''off'')]),
        (''security_definitions'', JObject [
          (''unused_security_schemes'', JString ''error''),
          (''unused_security_scopes'', JString ''error'')]),
        (''security'', JObject [
          (''invalid_non_empty_security_array'', JString ''error'')]),
        (''schemas'', JObject [
          (''invalid_type_format_pair'', JString ''off''),
          (''snake_case_only'', JString ''off''),
          (''no_schema_description'', JString ''hint''),
          (''no_property_description'', JString ''hint''),
          (''description_mentions_json'', JString ''off''),
          (''array_of_arrays'', JString ''off''),
          (''property_case_convention'', JArray [JString ''off'']),
          (''property_case_collision'', JString ''warning''),
          (''enum_case_convention'', JArray [JString ''off'']),
          (''undefined_required_properties'', JString ''error''),
          (''inconsistent_property_type'', JArray [JString ''off''])]),
        (''walker'', JObject [
          (''no_empty_descriptions'', JString ''error''),
          (''has_circular_references'', JString ''warning''),
          (''$ref_siblings'', JString ''off''),
          (''duplicate_sibling_description'', JString ''error''),
          (''incorrect_ref_pattern'', JString ''error'')])]),
      (''swagger2'', JObject [
        (''operations'', JObject [
          (''no_consumes_for_put_or_post'', JString ''error''),
          (''get_op_has_consumes'', JString ''warning''),
          (''no_produces'', JString ''warning'')])]),
      (''oas3'', JObject [
        (''operations'', JObject [
          (''no_request_body_name'', JString ''off'')]),
        (''responses'', JObject [
          (''no_success_response_codes'', JString ''warning''),
          (''protocol_switching_and_success_code'', JString ''error''),
          (''no_response_body'', JString ''error''),
          (''ibm_status_code_guidelines'', JString ''off'')]),
        (''schemas'', JObject [
          (''json_or_param_binary_string'', JString ''error'')])]),
      (''spectral'', JObject [
        (''rules'', JObject [
          (''no-eval-in-markdown'', JString ''error''),
          (''no-script-tags-in-markdown'', JString ''error''),
          (''openapi-tags'', JString ''warning''),
          (''operation-description'', JString ''hint''),
          (''operation-tags'', JString ''warning''),
          (''operation-tag-defined'', JString ''warning''),
          (''path-keys-no-trailing-slash'', JString ''error''),
          (''typed-enum'', JString ''error''),
          (''request-body-object'', JString ''off''),
          (''oas2-api-host'', JString ''error''),
          (''oas2-api-schemes'', JString ''error''),
          (''oas2-host-trailing-slash'', JString ''error''),
          (''oas2-valid-example'', JString ''error''),
          (''oas2-anyOf'', JString ''error''),
          (''oas2-oneOf'', JString ''error''),
          (''oas3-api-servers'', JString ''off''),
          (''oas3-examples-value-or-externalValue'', JString ''error''),
          (''oas3-server-trailing-slash'', JString ''error''),
          (''oas3-valid-example'', JString ''error''),
          (''oas3-valid-schema-example'', JString ''off''),
          (''response-example-provided'', JString ''hint''),
          (''response-error-response-schema'', JString ''off''),
          (''content-entry-contains-schema'', JString ''error''),
          (''content-entry-provided'', JString ''off'')])])]"

text \<open>
  Modelled from the spec: \<^verbatim>\<open>mergeOptions\<close> is the merge-options package, which is not
  among the sources.  The spec describes it as a deep merge in which the override wins
  leaf by leaf and not by whole-subtree replacement: where both sides hold an object
  under a key the two objects are merged, in every other case the override's value
  stands, and a key of one side only is kept.
\<close>

fun mergeOptions :: "json \<Rightarrow> json \<Rightarrow> json"
  and mergeProps :: "(string \<times> json) list \<Rightarrow> (string \<times> json) list \<Rightarrow> (string \<times> json) list" where
  "mergeOptions (JObject a) (JObject b) =
     JObject (mergeProps a b @ filter (\<lambda>kv. map_of a (fst kv) = None) b)"
| "mergeOptions a b = b"
| "mergeProps [] b = []"
| "mergeProps (kv # a) b =
     (case map_of b (fst kv) of
        None \<Rightarrow> kv
      | Some w \<Rightarrow> (fst kv, mergeOptions (snd kv) w)) # mergeProps a b"

section \<open>The working directory and runInDirectory (source/index.ts)\<close>

text \<open>
  The state of the process that the linter changes is its working directory; a
  directory is named by its resolved path, \<^verbatim>\<open>process.cwd()\<close> reads the field and
  \<^verbatim>\<open>process.chdir\<close> sets it (a change to a directory that does not exist, which
  throws and changes nothing, is not modelled).  An asynchronous callback is a function
  of the state of the process that resolves (\<open>Inr\<close>) or rejects (\<open>Inl\<close>) and leaves a
  state.
\<close>

record process =
  cwd :: string

definition chdir :: "string \<Rightarrow> process \<Rightarrow> process" where
  "chdir directory p = p \<lparr> cwd := directory \<rparr>"

type_synonym 'a async = "process \<Rightarrow> (error + 'a) \<times> process"

text \<open>A rejection of the awaited callback leaves the function at the \<^verbatim>\<open>await\<close>: the
  second \<^verbatim>\<open>process.chdir\<close> is not reached.\<close>

definition runInDirectory :: "string \<Rightarrow> 'a async \<Rightarrow> 'a async" where
  "runInDirectory directory callback p =
     (let originalWorkingDirectory = cwd p;
          p1 = chdir directory p;
          (result, p2) = callback p1
      in case result of
           Inl e \<Rightarrow> (Inl e, p2)
         | Inr v \<Rightarrow> (Inr v, chdir originalWorkingDirectory p2))"

section \<open>lintFile (source/index.ts)\<close>

text \<open>
  The collaborators of \<^verbatim>\<open>lintFile\<close> are parameters: the file system, strip-bom, the
  preprocessing step, \<^verbatim>\<open>path.extname\<close> and \<^verbatim>\<open>path.dirname\<close>, the JSON and YAML parsers,
  and the validation engines (\<open>'sw\<close> is the built Swagger object, \<open>'sp\<close> the list of
  Spectral results, \<open>'raw\<close> the validator's raw results).
\<close>

record ('sw, 'sp, 'raw) engines =
  readFile :: "string \<Rightarrow> error + string"
  stripBom :: "string \<Rightarrow> string"
  preprocessFile :: "string \<Rightarrow> string"
  extname :: "string \<Rightarrow> string"
  dirname :: "string \<Rightarrow> string"
  parseJson :: "string \<Rightarrow> error + json"
  parseYaml :: "string \<Rightarrow> error + json"
  spectralSetup :: "json \<Rightarrow> error option"
  buildSwaggerObject :: "json \<Rightarrow> 'sw async"
  spectralRun :: "string \<Rightarrow> 'sp async"
  validate :: "'sw \<Rightarrow> json \<Rightarrow> 'sp \<Rightarrow> error + 'raw"
  formatResultsAsObject :: "'raw \<Rightarrow> string \<Rightarrow> error + Result"

definition parseFileContents :: "('sw, 'sp, 'raw) engines \<Rightarrow> string \<Rightarrow> string \<Rightarrow> error + json" where
  "parseFileContents E contents filepath =
     (let fileExtension = drop 1 (extname E filepath) in
      if fileExtension = ''json'' then parseJson E contents
      else if fileExtension = ''yaml'' \<or> fileExtension = ''yml'' then parseYaml E contents
      else Inl (Error ''Unable to parse file''))"

definition buildSwagger :: "('sw, 'sp, 'raw) engines \<Rightarrow> json \<Rightarrow> string \<Rightarrow> 'sw async" where
  "buildSwagger E data filepath = runInDirectory (dirname E filepath) (buildSwaggerObject E data)"

definition runSpectral :: "('sw, 'sp, 'raw) engines \<Rightarrow> string \<Rightarrow> string \<Rightarrow> 'sp async" where
  "runSpectral E content filepath = runInDirectory (dirname E filepath) (spectralRun E content)"

definition descriptorMissing :: string where
  "descriptorMissing =
     ''Neither a `openapi` property nor a `swagger` property with the value of \"2.0\" was found''"

text \<open>The test \<^verbatim>\<open>data.openapi || data.swagger === "2.0"\<close>.\<close>

definition hasDescriptor :: "json \<Rightarrow> error + bool" where
  "hasDescriptor data =
     bindE (getProp data ''openapi'') (\<lambda>openapi.
       if truthy openapi then Inr True
       else bindE (getProp data ''swagger'') (\<lambda>swagger. Inr (swagger = JString ''2.0'')))"

definition lintFile :: "('sw, 'sp, 'raw) engines \<Rightarrow> string \<Rightarrow> json \<Rightarrow> Result async" where
  "lintFile E filepath config p =
     (case readFile E filepath of
        Inl e \<Rightarrow> (Inl e, p)
      | Inr file \<Rightarrow>
     let contents = preprocessFile E (stripBom E file) in
     case parseFileContents E contents filepath of
        Inl e \<Rightarrow> (Inl e, p)
      | Inr data \<Rightarrow>
     (case hasDescriptor data of
        Inl e \<Rightarrow> (Inl e, p)
      | Inr False \<Rightarrow> (Inl (Error descriptorMissing), p)
      | Inr True \<Rightarrow>
     let config' = mergeOptions defaultConfig config in
     (case spectralSetup E config' of
        Some e \<Rightarrow> (Inl e, p)
      | None \<Rightarrow>
     (case buildSwagger E data filepath p of
        (Inl e, p1) \<Rightarrow> (Inl e, p1)
      | (Inr swagger, p1) \<Rightarrow>
     (case runSpectral E contents filepath p1 of
        (Inl e, p2) \<Rightarrow> (Inl e, p2)
      | (Inr spectralResults, p2) \<Rightarrow>
          (bindE (validate E swagger config' spectralResults) (\<lambda>results.
             formatResultsAsObject E results contents), p2))))))"

section \<open>The command line (cli.ts)\<close>

text \<open>
  The mapper given to \<^verbatim>\<open>pMap\<close>, applied to a file and the outcome of
  \<^verbatim>\<open>lintFile(file, config)\<close>: the lines it logs, and the pair it returns (\<open>None\<close> is
  \<^verbatim>\<open>pMapSkip\<close>).
\<close>

definition mapper ::
  "terminal \<Rightarrow> bool \<Rightarrow> string \<Rightarrow> error + Result \<Rightarrow> string list \<times> (string \<times> Result) option" where
  "mapper t isAutoDetectedFiles file outcome =
     (case outcome of
        Inr result \<Rightarrow> ([], Some (file, result))
      | Inl e \<Rightarrow>
          (if isError e \<and> \<not> (isAutoDetectedFiles \<and> errorMessage e = descriptorMissing)
           then [red t (errorMessage e)] else [],
           None))"

text \<open>\<^verbatim>\<open>pMap\<close>: the results in the order of the files, the skipped ones left out; the
  log lines are given in the order of the files.\<close>

fun pMap :: "('a \<Rightarrow> string list \<times> 'b option) \<Rightarrow> 'a list \<Rightarrow> string list \<times> 'b list" where
  "pMap f [] = ([], [])"
| "pMap f (x # xs) =
     (let (logs, r) = f x; (logs', rs) = pMap f xs
      in (logs @ logs', (case r of None \<Rightarrow> rs | Some v \<Rightarrow> v # rs)))"

text \<open>How the process ends: with an exit status, or with an exception that nothing
  catches (on which Node ends the process with status 1).\<close>

datatype exit = Exit nat | Uncaught error

text \<open>
  The script, from the validated configuration on.  Its inputs are the \<^verbatim>\<open>invalid\<close>
  flag of the validated configuration, the \<^verbatim>\<open>--verbose\<close> flag, the file arguments,
  globby, and the outcome of \<^verbatim>\<open>lintFile(file, config)\<close> for every file.  The result is
  what was written to the standard output and how the process ends.
\<close>

definition main ::
  "terminal \<Rightarrow> bool \<Rightarrow> bool \<Rightarrow> string list \<Rightarrow> (string list \<Rightarrow> string list)
     \<Rightarrow> (string \<Rightarrow> error + Result) \<Rightarrow> string list \<times> exit" where
  "main t invalid verbose input globby lint =
     (if invalid then ([], Exit 2)
      else
        let isAutoDetectedFiles = (length input = 0);
            files = (if length input = 0 then globby [''**/*.{yaml,yml,json}''] else globby input);
            (logs, results) = pMap (\<lambda>file. mapper t isAutoDetectedFiles file (lint file)) files;
            logs1 = logs @ (if verbose then [inspect t results] else [])
        in if length results = 0 then (logs1 @ [''No files to lint''], Exit 2)
           else
             let exitCode = (if list_ex (\<lambda>fr. length (orEmpty (errors (snd fr))) > 0) results
                             then 1 else 0)
             in case fst (formatResults t results) of
                  Inl e \<Rightarrow> (logs1, Uncaught e)
                | Inr output \<Rightarrow> (logs1 @ [output], Exit exitCode))"


section \<open>Notions used to state the properties\<close>

text \<open>The 4-tuple of a file's counts (errors, warnings, infos, hints), compared
  lexicographically, and the file's number of messages.\<close>

definition counts :: "Result \<Rightarrow> nat \<times> nat \<times> nat \<times> nat" where
  "counts r =
     (length (orEmpty (errors r)), length (orEmpty (warnings r)),
      length (orEmpty (infos r)), length (orEmpty (hints r)))"

definition messageCount :: "Result \<Rightarrow> nat" where
  "messageCount r =
     length (orEmpty (errors r)) + length (orEmpty (warnings r))
     + length (orEmpty (infos r)) + length (orEmpty (hints r))"

definition totalMessages :: "(string \<times> Result) list \<Rightarrow> nat" where
  "totalMessages rs = sum_list (map (\<lambda>fr. messageCount (snd fr)) rs)"

text \<open>\<open>after\<close> is \<open>before\<close> sorted by ascending line number, messages of one line
  keeping their order.\<close>

definition stableSortedByLine :: "LintMessage list \<Rightarrow> LintMessage list \<Rightarrow> bool" where
  "stableSortedByLine before after \<longleftrightarrow>
     sorted (map line after) \<and> mset after = mset before \<and>
     (\<forall>k. filter (\<lambda>m. line m = k) after = filter (\<lambda>m. line m = k) before)"

text \<open>The key under which the comparison function of \<^verbatim>\<open>results.sort\<close> is an ascending
  order: the four counts, negated.\<close>

definition blockKey :: "string \<times> SortedResult \<Rightarrow> int \<times> int \<times> int \<times> int" where
  "blockKey fr =
     (- int (length (serrors (snd fr))), - int (length (swarnings (snd fr))),
      - int (length (sinfos (snd fr))), - int (length (shints (snd fr))))"

text \<open>\<open>block\<close> is the block of the file \<open>fr\<close>: the underlined file name, then the
  formatted lines of the hints, of the infos, of the warnings and of the errors, each
  bucket stably sorted by line.\<close>

definition isBlockOf :: "terminal \<Rightarrow> nat \<Rightarrow> nat \<Rightarrow> string \<times> Result \<Rightarrow> string \<Rightarrow> bool" where
  "isBlockOf t w1 w2 fr block \<longleftrightarrow>
     (\<exists>H I W E hs is ws es.
        stableSortedByLine (orEmpty (hints (snd fr))) H \<and>
        stableSortedByLine (orEmpty (infos (snd fr))) I \<and>
        stableSortedByLine (orEmpty (warnings (snd fr))) W \<and>
        stableSortedByLine (orEmpty (errors (snd fr))) E \<and>
        list_all2 (\<lambda>m l. formatLine t info w1 w2 m = Inr l) H hs \<and>
        list_all2 (\<lambda>m l. formatLine t info w1 w2 m = Inr l) I is \<and>
        list_all2 (\<lambda>m l. formatLine t warning w1 w2 m = Inr l) W ws \<and>
        list_all2 (\<lambda>m l. formatLine t error w1 w2 m = Inr l) E es \<and>
        block = underline t (fst fr) @ newline @ join newline (hs @ is @ ws @ es) @ newline)"


text \<open>The value of a field of a parsed document, \<^verbatim>\<open>undefined\<close> when the document has
  no such field.\<close>

definition field :: "json \<Rightarrow> string \<Rightarrow> json" where
  "field data key =
     (case data of
        JObject kvs \<Rightarrow> (case map_of kvs key of None \<Rightarrow> JUndefined | Some v \<Rightarrow> v)
      | _ \<Rightarrow> JUndefined)"

text \<open>The exit status of the process: Node ends a process on an uncaught exception
  with status 1.\<close>

fun exitStatus :: "exit \<Rightarrow> nat" where
  "exitStatus (Exit n) = n"
| "exitStatus (Uncaught e) = 1"

text \<open>The value a configuration holds under a path of keys, and whether an override
  leaves a path unspecified: it has no value under the path and none under a prefix
  of it that is not an object.\<close>

fun lookupPath :: "string list \<Rightarrow> json \<Rightarrow> json option" where
  "lookupPath [] v = Some v"
| "lookupPath (k # ks) (JObject kvs) =
     (case map_of kvs k of None \<Rightarrow> None | Some v \<Rightarrow> lookupPath ks v)"
| "lookupPath (k # ks) v = None"

fun unspecified :: "string list \<Rightarrow> json \<Rightarrow> bool" where
  "unspecified [] v = False"
| "unspecified (k # ks) (JObject kvs) =
     (case map_of kvs k of None \<Rightarrow> True | Some v \<Rightarrow> unspecified ks v)"
| "unspecified (k # ks) v = False"

fun isObject :: "json \<Rightarrow> bool" where
  "isObject (JObject kvs) = True"
| "isObject v = False"

text \<open>A result with every absent bucket replaced by an empty array.\<close>

definition withDefaults :: "Result \<Rightarrow> Result" where
  "withDefaults r =
     r \<lparr> errors := Some (orEmpty (errors r)), warnings := Some (orEmpty (warnings r)),
         infos := Some (orEmpty (infos r)), hints := Some (orEmpty (hints r)) \<rparr>"

section \<open>Example runs\<close>

definition lintMessage :: "string \<Rightarrow> string \<Rightarrow> int \<Rightarrow> LintMessage" where
  "lintMessage m r l = \<lparr> path = [], message = m, rule = r, line = l \<rparr>"

definition noMessages :: Result where
  "noMessages = \<lparr> version = ''3.0.0'', errors = None, warnings = None, infos = None, hints = None \<rparr>"

text \<open>A file with two warnings and one error (the example of the help text), its
  warnings not in the order of their lines.\<close>

definition apiResult :: Result where
  "apiResult =
     noMessages \<lparr>
       errors := Some [lintMessage ''Object should have the required property info.'' ''oas3-schema'' 0],
       warnings := Some [lintMessage ''OpenAPI object should have non-empty tags array.'' ''openapi-tags'' 7,
                         lintMessage ''Major version segment not present in either server URLs or paths'' ''major-version-in-path'' 3] \<rparr>"

text \<open>A file with one message of each severity and a second hint on an earlier
  line.\<close>

definition petsResult :: Result where
  "petsResult =
     noMessages \<lparr>
       errors := Some [lintMessage ''Operation must have a response'' ''no-response'' 14],
       warnings := Some [lintMessage ''Tag is not defined'' ''operation-tag-defined'' 120],
       infos := Some [lintMessage ''Consider a summary'' ''no_summary'' 9],
       hints := Some [lintMessage ''No description'' ''no_schema_description'' 30,
                      lintMessage ''No example'' ''response-example-provided'' 2] \<rparr>"

text \<open>A file with three warnings and no error, and a file with one error.\<close>

definition warningsResult :: Result where
  "warningsResult =
     noMessages \<lparr>
       warnings := Some [lintMessage ''w1'' ''r1'' 1, lintMessage ''w2'' ''r2'' 2,
                         lintMessage ''w3'' ''r3'' 3] \<rparr>"

definition errorResult :: Result where
  "errorResult = noMessages \<lparr> errors := Some [lintMessage ''e1'' ''r4'' 5] \<rparr>"

text \<open>A file whose only message is a hint, and a file with a short error message
  and a longer hint.\<close>

definition hintResult :: Result where
  "hintResult =
     noMessages \<lparr> hints := Some [lintMessage ''Operation has no description'' ''operation-description'' 12] \<rparr>"

definition wideHintResult :: Result where
  "wideHintResult =
     noMessages \<lparr>
       errors := Some [lintMessage ''Bad tag'' ''undefined_tag'' 4],
       hints := Some [lintMessage ''Schema has no description'' ''no_schema_description'' 8] \<rparr>"

text \<open>Three runs: the three files above, two files with one error each, and the
  file of the help text; and the report of the first.\<close>

definition exampleRun :: "(string \<times> Result) list" where
  "exampleRun =
     [(''warnings.yaml'', warningsResult), (''pets.yaml'', petsResult), (''error.yaml'', errorResult)]"

definition exampleReport :: string where
  "exampleReport =
     newline @ ''pets.yaml'' @ newline
     @ ''i   2 No example                     response-example-provided'' @ newline
     @ ''i  30 No description                 no_schema_description'' @ newline
     @ ''i   9 Consider a summary             no_summary'' @ newline
     @ ''! 120 Tag is not defined             operation-tag-defined'' @ newline
     @ ''x  14 Operation must have a response no-response'' @ newline
     @ newline @ ''error.yaml'' @ newline
     @ ''x   5 e1                             r4'' @ newline
     @ newline @ ''warnings.yaml'' @ newline
     @ ''!   1 w1                             r1'' @ newline
     @ ''!   2 w2                             r2'' @ newline
     @ ''!   3 w3                             r3'' @ newline
     @ newline @ ''2 hints'' @ newline @ ''1 info'' @ newline @ ''4 warnings'' @ newline @ ''2 errors''"

definition tiedRun :: "(string \<times> Result) list" where
  "tiedRun = [(''a.yaml'', errorResult), (''b.yaml'', errorResult)]"

definition tiedReport :: string where
  "tiedReport =
     newline @ ''a.yaml'' @ newline @ ''x 5 e1 r4'' @ newline
     @ newline @ ''b.yaml'' @ newline @ ''x 5 e1 r4'' @ newline
     @ newline @ ''2 errors''"

text \<open>
  A file system with two JSON files, \<^verbatim>\<open>notes.json\<close> holding an empty object and
  \<^verbatim>\<open>empty.json\<close> holding \<^verbatim>\<open>null\<close>, and an OpenAPI document \<^verbatim>\<open>api.json\<close> on which the
  Swagger builder rejects; all files are in the directory \<^verbatim>\<open>/specs\<close>.
\<close>

definition exampleExtname :: "string \<Rightarrow> string" where
  "exampleExtname f =
     (if CHR ''.'' \<in> set f then CHR ''.'' # rev (takeWhile (\<lambda>c. c \<noteq> CHR ''.'') (rev f)) else [])"

definition exampleEngines :: "(unit, unit, unit) engines" where
  "exampleEngines =
     \<lparr> readFile = (\<lambda>f. if f = ''notes.json'' then Inr ''{}''
                        else if f = ''empty.json'' then Inr ''null''
                        else if f = ''api.json'' then Inr ''{\"openapi\": \"3.0.0\"}''
                        else Inl (EngineError ''ENOENT'')),
       stripBom = (\<lambda>s. s),
       preprocessFile = (\<lambda>s. s),
       extname = exampleExtname,
       dirname = (\<lambda>f. ''/specs''),
       parseJson = (\<lambda>s. if s = ''{}'' then Inr (JObject [])
                         else if s = ''null'' then Inr JNull
                         else if s = ''{\"openapi\": \"3.0.0\"}''
                           then Inr (JObject [(''openapi'', JString ''3.0.0'')])
                         else Inl (ParserError ''Unexpected token'')),
       parseYaml = (\<lambda>s. Inl (ParserError ''bad indentation'')),
       spectralSetup = (\<lambda>c. None),
       buildSwaggerObject = (\<lambda>d p. (Inl (EngineError ''Error resolving $ref pointer''), p)),
       spectralRun = (\<lambda>s p. (Inr (), p)),
       validate = (\<lambda>sw c sp. Inr ()),
       formatResultsAsObject = (\<lambda>raw contents. Inr noMessages) \<rparr>"

text \<open>The override of the readme: one rule of one category.\<close>

definition exampleOverride :: json where
  "exampleOverride =
     JObject [(''shared'', JObject [(''operations'', JObject [(''unused_tag'', JString ''warning'')])])]"

section \<open>Properties of the library functions\<close>

lemma mapE_Inr_length: "mapE f xs = Inr ys \<Longrightarrow> length ys = length xs"
  by (induction xs arbitrary: ys) (auto simp: bindE_def split: sum.splits)

lemma digits_small: "n < 10 \<Longrightarrow> digits n = [digitChar n]"
  by (subst digits.simps) simp

lemma digits_large: "\<not> n < 10 \<Longrightarrow> digits n = digits (n div 10) @ [digitChar (n mod 10)]"
  by (subst digits.simps) simp

lemma insort_cmp_insort_key:
  assumes "\<And>x y. c x y \<le> 0 \<longleftrightarrow> f x \<le> f y"
  shows "insort_cmp c x ys = insort_key f x ys"
  by (induction ys) (simp_all add: assms)

lemma array_sort_sort_key:
  assumes "\<And>x y. c x y \<le> 0 \<longleftrightarrow> f x \<le> f y"
  shows "array_sort c xs = sort_key f xs"
proof -
  have "insort_cmp c = insort_key f"
    by (intro ext) (rule insort_cmp_insort_key, rule assms)
  then show ?thesis
    by (simp add: array_sort_def sort_key_def)
qed

lemma array_sort_byLine: "array_sort byLine xs = sort_key line xs"
  by (rule array_sort_sort_key) (simp add: byLine_def numberSortAscending_def)

lemma compareResults_blockKey: "compareResults a b \<le> 0 \<longleftrightarrow> blockKey a \<le> blockKey b"
  by (auto simp: compareResults_def blockKey_def Let_def)

lemma array_sort_compareResults: "array_sort compareResults xs = sort_key blockKey xs"
  by (rule array_sort_sort_key) (rule compareResults_blockKey)

lemma stableSortedByLine_sort_key: "stableSortedByLine xs (sort_key line xs)"
  by (simp add: stableSortedByLine_def sort_key_stable)

lemma insort_key_map:
  "insort_key f (g x) (map g ys) = map g (insort_key (\<lambda>y. f (g y)) x ys)"
  by (induction ys) simp_all

lemma sort_key_map: "sort_key f (map g xs) = map g (sort_key (\<lambda>y. f (g y)) xs)"
  by (induction xs) (simp_all add: insort_key_map)

lemma sortBuckets_sel:
  "serrors (sortBuckets r) = sort_key line (orEmpty (errors r))"
  "swarnings (sortBuckets r) = sort_key line (orEmpty (warnings r))"
  "sinfos (sortBuckets r) = sort_key line (orEmpty (infos r))"
  "shints (sortBuckets r) = sort_key line (orEmpty (hints r))"
  by (simp_all add: sortBuckets_def array_sort_byLine)

lemma foldl_tally_totals:
  "totalErrors (foldl (\<lambda>c fr. tally t c (snd fr)) c0 rs)
     = totalErrors c0 + sum_list (map (\<lambda>fr. length (serrors (snd fr))) rs)"
  "totalWarnings (foldl (\<lambda>c fr. tally t c (snd fr)) c0 rs)
     = totalWarnings c0 + sum_list (map (\<lambda>fr. length (swarnings (snd fr))) rs)"
  "totalInfos (foldl (\<lambda>c fr. tally t c (snd fr)) c0 rs)
     = totalInfos c0 + sum_list (map (\<lambda>fr. length (sinfos (snd fr))) rs)"
  "totalHints (foldl (\<lambda>c fr. tally t c (snd fr)) c0 rs)
     = totalHints c0 + sum_list (map (\<lambda>fr. length (shints (snd fr))) rs)"
  by (induction rs arbitrary: c0) (simp_all add: tally_def)

lemma countAll_total:
  "totalErrors (countAll t (map (\<lambda>fr. (fst fr, sortBuckets (snd fr))) rs))
   + totalWarnings (countAll t (map (\<lambda>fr. (fst fr, sortBuckets (snd fr))) rs))
   + totalInfos (countAll t (map (\<lambda>fr. (fst fr, sortBuckets (snd fr))) rs))
   + totalHints (countAll t (map (\<lambda>fr. (fst fr, sortBuckets (snd fr))) rs))
   = totalMessages rs"
  unfolding countAll_def foldl_tally_totals totalMessages_def
  by (induction rs) (simp_all add: zeroCounters_def sortBuckets_sel messageCount_def comp_def)

lemma mapE_list_all2: "mapE f xs = Inr ys \<longleftrightarrow> list_all2 (\<lambda>x y. f x = Inr y) xs ys"
proof (induction xs arbitrary: ys)
  case Nil
  show ?case by auto
next
  case (Cons x xs)
  show ?case
  proof (cases "f x")
    case (Inl e)
    then show ?thesis by (auto simp: bindE_def list_all2_Cons1)
  next
    case (Inr y)
    show ?thesis
    proof (cases "mapE f xs")
      case (Inl e)
      with Inr Cons.IH show ?thesis by (auto simp: bindE_def list_all2_Cons1)
    next
      case tail: (Inr zs)
      with Inr Cons.IH show ?thesis by (auto simp: bindE_def list_all2_Cons1)
    qed
  qed
qed

lemma formatResults_output:
  assumes ret: "fst (formatResults t rs) = Inr out" and some: "0 < totalMessages rs"
  shows "\<exists>blocks.
           list_all2
             (\<lambda>fr block. formatBlock t
                 (maxLineWidth (countAll t (map (\<lambda>fr. (fst fr, sortBuckets (snd fr))) rs)))
                 (maxMessageWidth (countAll t (map (\<lambda>fr. (fst fr, sortBuckets (snd fr))) rs)))
                 (fst fr, sortBuckets (snd fr)) = Inr block)
             (sort_key (\<lambda>fr. blockKey (fst fr, sortBuckets (snd fr))) rs) blocks \<and>
           out = outputStart t @ join newline blocks
                 @ statisticsSection t (countAll t (map (\<lambda>fr. (fst fr, sortBuckets (snd fr))) rs))"
proof -
  let ?g = "\<lambda>fr. (fst fr, sortBuckets (snd fr))"
  let ?c = "countAll t (map ?g rs)"
  have nz: "totalErrors ?c + totalWarnings ?c + totalInfos ?c + totalHints ?c \<noteq> 0"
    using some by (simp only: countAll_total)
  from ret have "(if totalErrors ?c + totalWarnings ?c + totalInfos ?c + totalHints ?c = 0
                  then Inr []
                  else bindE (mapE (formatBlock t (maxLineWidth ?c) (maxMessageWidth ?c))
                        (array_sort compareResults (map ?g rs))) (\<lambda>blocks.
                 Inr (outputStart t @ join newline blocks @ statisticsSection t ?c))) = Inr out"
    unfolding formatResults_def Let_def fst_conv .
  with nz have "bindE (mapE (formatBlock t (maxLineWidth ?c) (maxMessageWidth ?c))
                        (array_sort compareResults (map ?g rs))) (\<lambda>blocks.
                 Inr (outputStart t @ join newline blocks @ statisticsSection t ?c)) = Inr out"
    by (simp only: if_False)
  then obtain blocks where
    b: "mapE (formatBlock t (maxLineWidth ?c) (maxMessageWidth ?c))
          (array_sort compareResults (map ?g rs)) = Inr blocks"
    and o: "out = outputStart t @ join newline blocks @ statisticsSection t ?c"
    by (auto simp: bindE_def split: sum.splits)
  have "array_sort compareResults (map ?g rs) = map ?g (sort_key (\<lambda>fr. blockKey (?g fr)) rs)"
    by (simp only: array_sort_compareResults sort_key_map)
  with b have "list_all2 (\<lambda>x y. formatBlock t (maxLineWidth ?c) (maxMessageWidth ?c) x = Inr y)
                 (map ?g (sort_key (\<lambda>fr. blockKey (?g fr)) rs)) blocks"
    by (simp only: mapE_list_all2)
  then have "list_all2 (\<lambda>fr y. formatBlock t (maxLineWidth ?c) (maxMessageWidth ?c) (?g fr) = Inr y)
                 (sort_key (\<lambda>fr. blockKey (?g fr)) rs) blocks"
    by (simp add: list_all2_map1)
  with o show ?thesis by blast
qed

lemma formatBlock_isBlockOf:
  assumes "formatBlock t w1 w2 (fst fr, sortBuckets (snd fr)) = Inr block"
  shows "isBlockOf t w1 w2 fr block"
proof -
  let ?r = "sortBuckets (snd fr)"
  from assms obtain hs "is" ws es where
    h: "mapE (formatLine t info w1 w2) (shints ?r) = Inr hs" and
    i: "mapE (formatLine t info w1 w2) (sinfos ?r) = Inr is" and
    w: "mapE (formatLine t warning w1 w2) (swarnings ?r) = Inr ws" and
    e: "mapE (formatLine t error w1 w2) (serrors ?r) = Inr es" and
    b: "block = underline t (fst fr) @ newline @ join newline (hs @ is @ ws @ es) @ newline"
    by (auto simp: formatBlock_def Let_def bindE_def split: sum.splits)
  show ?thesis
    unfolding isBlockOf_def
    apply (rule exI [of _ "sort_key line (orEmpty (hints (snd fr)))"])
    apply (rule exI [of _ "sort_key line (orEmpty (infos (snd fr)))"])
    apply (rule exI [of _ "sort_key line (orEmpty (warnings (snd fr)))"])
    apply (rule exI [of _ "sort_key line (orEmpty (errors (snd fr)))"])
    apply (rule exI [of _ hs])
    apply (rule exI [of _ "is"])
    apply (rule exI [of _ ws])
    apply (rule exI [of _ es])
    using h i w e b
    by (simp add: stableSortedByLine_sort_key mapE_list_all2 sortBuckets_sel)
qed

lemma blockKey_counts:
  "blockKey (fst a, sortBuckets (snd a)) \<le> blockKey (fst b, sortBuckets (snd b))
     \<longleftrightarrow> counts (snd b) \<le> counts (snd a)"
  by (auto simp: blockKey_def counts_def sortBuckets_sel)

lemma blockKey_counts_eq:
  "blockKey (fst a, sortBuckets (snd a)) = (- int e, - int w, - int i, - int h)
     \<longleftrightarrow> counts (snd a) = (e, w, i, h)"
  by (auto simp: blockKey_def counts_def sortBuckets_sel)

lemma block_order_descending:
  "sorted_wrt (\<lambda>a b. counts (snd b) \<le> counts (snd a))
     (sort_key (\<lambda>fr. blockKey (fst fr, sortBuckets (snd fr))) rs)"
proof -
  have "sorted (map (\<lambda>fr. blockKey (fst fr, sortBuckets (snd fr)))
          (sort_key (\<lambda>fr. blockKey (fst fr, sortBuckets (snd fr))) rs))"
    by (rule sorted_sort_key)
  then show ?thesis
    by (simp add: sorted_map blockKey_counts)
qed

lemma block_order_stable:
  "filter (\<lambda>fr. counts (snd fr) = k)
     (sort_key (\<lambda>fr. blockKey (fst fr, sortBuckets (snd fr))) rs)
   = filter (\<lambda>fr. counts (snd fr) = k) rs"
proof -
  obtain e w i h where k: "k = (e, w, i, h)"
    by (cases k) auto
  have "filter (\<lambda>fr. blockKey (fst fr, sortBuckets (snd fr)) = (- int e, - int w, - int i, - int h))
          (sort_key (\<lambda>fr. blockKey (fst fr, sortBuckets (snd fr))) rs)
        = filter (\<lambda>fr. blockKey (fst fr, sortBuckets (snd fr)) = (- int e, - int w, - int i, - int h)) rs"
    by (rule sort_key_stable)
  then show ?thesis
    by (simp only: blockKey_counts_eq k)
qed

lemma exampleRun_report: "fst (formatResults plainTerminal exampleRun) = Inr exampleReport"
  by code_simp

lemma tiedRun_report: "fst (formatResults plainTerminal tiedRun) = Inr tiedReport"
  by code_simp

lemma exampleRun_total: "0 < totalMessages exampleRun"
  by code_simp

section \<open>The claims about formatResults\<close>

text \<open>
  C6.  When the aggregate total of the messages of all files of a run is zero,
  \<^verbatim>\<open>formatResults\<close> returns the empty string: no header, no block, no statistics.
\<close>

theorem formatResults_clean_run_empty:
  assumes "totalMessages rs = 0"
  shows "fst (formatResults t rs) = Inr []"
proof -
  let ?c = "countAll t (map (\<lambda>fr. (fst fr, sortBuckets (snd fr))) rs)"
  have "totalErrors ?c + totalWarnings ?c + totalInfos ?c + totalHints ?c = 0"
    using assms by (simp only: countAll_total)
  then show ?thesis
    by (simp add: formatResults_def Let_def)
qed

theorem formatResults_clean_run_empty_witness:
  "totalMessages [(''a.yaml'', noMessages), (''b.yaml'', noMessages \<lparr> hints := Some [] \<rparr>)] = 0
   \<and> fst (formatResults plainTerminal
          [(''a.yaml'', noMessages), (''b.yaml'', noMessages \<lparr> hints := Some [] \<rparr>)]) = Inr []"
proof -
  have z: "totalMessages [(''a.yaml'', noMessages), (''b.yaml'', noMessages \<lparr> hints := Some [] \<rparr>)] = 0"
    by code_simp
  from z formatResults_clean_run_empty [OF z, of plainTerminal] show ?thesis
    by (rule conjI)
qed

text \<open>
  C5.  In the output of \<^verbatim>\<open>formatResults\<close> every file's block prints its lines in the
  order hints, infos, warnings, errors, and the messages of each bucket in ascending
  order of their line numbers, messages of one line keeping the order they had: the
  output is the start of the output, the blocks joined by newlines and the
  statistics, the blocks are those of the files of the run in some order, and the
  block of a file is as \<open>isBlockOf\<close> says.
\<close>

theorem formatResults_block_lines:
  assumes "fst (formatResults t rs) = Inr out" and "0 < totalMessages rs"
  shows "\<exists>ordered blocks w1 w2 stats.
           mset ordered = mset rs \<and>
           list_all2 (isBlockOf t w1 w2) ordered blocks \<and>
           out = outputStart t @ join newline blocks @ stats"
proof -
  let ?c = "countAll t (map (\<lambda>fr. (fst fr, sortBuckets (snd fr))) rs)"
  let ?ordered = "sort_key (\<lambda>fr. blockKey (fst fr, sortBuckets (snd fr))) rs"
  from formatResults_output [OF assms] obtain blocks where
    b: "list_all2 (\<lambda>fr block. formatBlock t (maxLineWidth ?c) (maxMessageWidth ?c)
           (fst fr, sortBuckets (snd fr)) = Inr block) ?ordered blocks"
    and o: "out = outputStart t @ join newline blocks @ statisticsSection t ?c"
    by blast
  from b have "list_all2 (isBlockOf t (maxLineWidth ?c) (maxMessageWidth ?c)) ?ordered blocks"
    by (rule list_all2_mono) (rule formatBlock_isBlockOf)
  moreover have "mset ?ordered = mset rs"
    by simp
  ultimately show ?thesis
    using o by blast
qed

theorem formatResults_block_lines_witness:
  "fst (formatResults plainTerminal exampleRun) = Inr exampleReport \<and>
   0 < totalMessages exampleRun \<and>
   (\<exists>ordered blocks w1 w2 stats.
      mset ordered = mset exampleRun \<and>
      list_all2 (isBlockOf plainTerminal w1 w2) ordered blocks \<and>
      exampleReport = outputStart plainTerminal @ join newline blocks @ stats)"
proof -
  have r: "fst (formatResults plainTerminal exampleRun) = Inr exampleReport"
    by (rule exampleRun_report)
  have n: "0 < totalMessages exampleRun"
    by (rule exampleRun_total)
  from r n formatResults_block_lines [OF r n] show ?thesis
    by blast
qed

text \<open>
  C4, as amended.  In the output of \<^verbatim>\<open>formatResults\<close> for a run with at least one
  message the blocks of the files appear in descending lexicographic order of the
  4-tuple (errors, warnings, infos, hints), which is not strict: files with equal
  tuples all have their blocks, in the order in which the run lists them.
\<close>

theorem formatResults_blocks_descending:
  assumes "fst (formatResults t rs) = Inr out" and "0 < totalMessages rs"
  shows "\<exists>ordered blocks w1 w2 stats.
           mset ordered = mset rs \<and>
           sorted_wrt (\<lambda>a b. counts (snd b) \<le> counts (snd a)) ordered \<and>
           (\<forall>k. filter (\<lambda>fr. counts (snd fr) = k) ordered = filter (\<lambda>fr. counts (snd fr) = k) rs) \<and>
           list_all2 (\<lambda>fr block. formatBlock t w1 w2 (fst fr, sortBuckets (snd fr)) = Inr block)
             ordered blocks \<and>
           out = outputStart t @ join newline blocks @ stats"
proof -
  let ?c = "countAll t (map (\<lambda>fr. (fst fr, sortBuckets (snd fr))) rs)"
  let ?ordered = "sort_key (\<lambda>fr. blockKey (fst fr, sortBuckets (snd fr))) rs"
  from formatResults_output [OF assms] obtain blocks where
    b: "list_all2 (\<lambda>fr block. formatBlock t (maxLineWidth ?c) (maxMessageWidth ?c)
           (fst fr, sortBuckets (snd fr)) = Inr block) ?ordered blocks"
    and o: "out = outputStart t @ join newline blocks @ statisticsSection t ?c"
    by blast
  have m: "mset ?ordered = mset rs"
    by simp
  have s: "sorted_wrt (\<lambda>a b. counts (snd b) \<le> counts (snd a)) ?ordered"
    by (rule block_order_descending)
  have f: "\<forall>k. filter (\<lambda>fr. counts (snd fr) = k) ?ordered = filter (\<lambda>fr. counts (snd fr) = k) rs"
    by (simp add: block_order_stable)
  show ?thesis
    by (intro exI conjI) (rule m, rule s, rule f, rule b, rule o)
qed

theorem formatResults_blocks_descending_witness:
  "fst (formatResults plainTerminal exampleRun) = Inr exampleReport \<and>
   0 < totalMessages exampleRun \<and>
   (\<exists>ordered blocks w1 w2 stats.
      mset ordered = mset exampleRun \<and>
      sorted_wrt (\<lambda>a b. counts (snd b) \<le> counts (snd a)) ordered \<and>
      (\<forall>k. filter (\<lambda>fr. counts (snd fr) = k) ordered
             = filter (\<lambda>fr. counts (snd fr) = k) exampleRun) \<and>
      list_all2 (\<lambda>fr block. formatBlock plainTerminal w1 w2 (fst fr, sortBuckets (snd fr)) = Inr block)
        ordered blocks \<and>
      exampleReport = outputStart plainTerminal @ join newline blocks @ stats)"
proof -
  have r: "fst (formatResults plainTerminal exampleRun) = Inr exampleReport"
    by (rule exampleRun_report)
  have n: "0 < totalMessages exampleRun"
    by (rule exampleRun_total)
  show ?thesis
    by (intro conjI) (rule r, rule n, rule formatResults_blocks_descending [OF r n])
qed


text \<open>
  C4 as stated fails: the run of two files with one error each has a message, its
  report holds the blocks of both files, and no order of the two files is strictly
  descending in the 4-tuple.
\<close>

theorem formatResults_blocks_not_strictly_descending:
  "0 < totalMessages tiedRun \<and>
   fst (formatResults plainTerminal tiedRun) = Inr tiedReport \<and>
   \<not> (\<exists>ordered. mset ordered = mset tiedRun \<and>
          sorted_wrt (\<lambda>a b. counts (snd b) < counts (snd a)) ordered)"
proof -
  have n: "0 < totalMessages tiedRun"
    by code_simp
  have r: "fst (formatResults plainTerminal tiedRun) = Inr tiedReport"
    by (rule tiedRun_report)
  have "\<not> sorted_wrt (\<lambda>a b. counts (snd b) < counts (snd a)) ordered"
    if m: "mset ordered = mset tiedRun" for ordered
  proof -
    have "length ordered = length tiedRun"
      using m by (rule mset_eq_length)
    then have "length ordered = Suc (Suc 0)"
      by (simp add: tiedRun_def)
    then obtain u v where uv: "ordered = [u, v]"
      by (auto simp: length_Suc_conv)
    have "set ordered = set tiedRun"
      using m by (rule mset_eq_setD)
    then have "u \<in> set tiedRun" and "v \<in> set tiedRun"
      using uv by auto
    moreover have "\<forall>x \<in> set tiedRun. snd x = errorResult"
      by (simp add: tiedRun_def)
    ultimately have "snd u = errorResult" and "snd v = errorResult"
      by blast+
    with uv show ?thesis
      by simp
  qed
  with n r show ?thesis
    by blast
qed

lemma snd_formatResults:
  "snd (formatResults t rs) = map (\<lambda>fr. (fst fr, sortedInPlace (snd fr))) rs"
  by (simp add: formatResults_def Let_def)

lemma rel_option_stableSorted:
  "rel_option stableSortedByLine b (map_option (array_sort byLine) b)"
  by (cases b) (simp_all add: array_sort_byLine stableSortedByLine_sort_key)

text \<open>
  C2, as amended.  \<^verbatim>\<open>formatResults\<close> sorts the buckets of the results it is given in
  place: after the call the array of results has the same files and versions, an
  absent bucket is still absent, and every bucket that is present holds the messages
  it held, in ascending order of their line numbers, messages of one line in the
  order they had.
\<close>

theorem formatResults_sorts_input_in_place:
  "list_all2
     (\<lambda>before after.
        fst after = fst before \<and>
        version (snd after) = version (snd before) \<and>
        rel_option stableSortedByLine (errors (snd before)) (errors (snd after)) \<and>
        rel_option stableSortedByLine (warnings (snd before)) (warnings (snd after)) \<and>
        rel_option stableSortedByLine (infos (snd before)) (infos (snd after)) \<and>
        rel_option stableSortedByLine (hints (snd before)) (hints (snd after)))
     rs (snd (formatResults t rs))"
  unfolding snd_formatResults list_all2_map2
  by (rule list.rel_refl) (simp add: sortedInPlace_def rel_option_stableSorted)

text \<open>
  C2 as stated fails: the file of the help text lists the warning of line 7 before
  the warning of line 3; after the call the caller's result lists them the other way
  round.
\<close>

theorem formatResults_reorders_input:
  "warnings (snd (hd (snd (formatResults plainTerminal [(''api.yaml'', apiResult)]))))
     = Some [lintMessage ''Major version segment not present in either server URLs or paths'' ''major-version-in-path'' 3,
             lintMessage ''OpenAPI object should have non-empty tags array.'' ''openapi-tags'' 7]
   \<and> warnings apiResult
     = Some [lintMessage ''OpenAPI object should have non-empty tags array.'' ''openapi-tags'' 7,
             lintMessage ''Major version segment not present in either server URLs or paths'' ''major-version-in-path'' 3]
   \<and> snd (formatResults plainTerminal [(''api.yaml'', apiResult)]) \<noteq> [(''api.yaml'', apiResult)]"
  by code_simp

text \<open>
  C7.  The run of a file with a short error message and a longer hint has two
  messages, and \<^verbatim>\<open>formatResults\<close> throws a RangeError instead of returning a report that
  ends with the statistics: the width of the message column is taken from the errors
  and warnings alone, and the padding of the hint's line is negative.
\<close>

theorem formatResults_wide_hint_throws:
  "totalMessages [(''wide.yaml'', wideHintResult)] = 2 \<and>
   fst (formatResults plainTerminal [(''wide.yaml'', wideHintResult)])
     = Inl (RangeError ''Invalid count value: -18'')"
  by code_simp

text \<open>The same happens for a file whose only message is a hint, whether its other
  buckets are absent or empty.\<close>

lemma formatResults_hint_only_throws:
  "errors hintResult = None \<and> warnings hintResult = None \<and> infos hintResult = None \<and>
   fst (formatResults plainTerminal [(''hint.yaml'', hintResult)])
     = Inl (RangeError ''Invalid count value: -28'')"
  by code_simp

lemma sortBuckets_withDefaults: "sortBuckets (withDefaults r) = sortBuckets r"
  by (simp add: sortBuckets_def withDefaults_def orEmpty_def)

lemma fst_formatResults_withDefaults:
  "fst (formatResults t (map (\<lambda>fr. (fst fr, withDefaults (snd fr))) rs)) = fst (formatResults t rs)"
  by (simp add: formatResults_def Let_def comp_def sortBuckets_withDefaults)

lemma all_absent_total:
  assumes "\<forall>fr \<in> set rs. errors (snd fr) = None \<and> warnings (snd fr) = None \<and>
                         infos (snd fr) = None \<and> hints (snd fr) = None"
  shows "totalMessages rs = 0"
  using assms by (induction rs) (simp_all add: totalMessages_def messageCount_def orEmpty_def)

lemma formatResults_returns_statistics:
  assumes "fst (formatResults t rs) = Inr out" and "0 < totalMessages rs"
  shows "\<exists>body c.
           out = body @ newline @ join newline (statistics t c) \<and>
           totalErrors c = sum_list (map (\<lambda>fr. length (orEmpty (errors (snd fr)))) rs) \<and>
           totalWarnings c = sum_list (map (\<lambda>fr. length (orEmpty (warnings (snd fr)))) rs) \<and>
           totalInfos c = sum_list (map (\<lambda>fr. length (orEmpty (infos (snd fr)))) rs) \<and>
           totalHints c = sum_list (map (\<lambda>fr. length (orEmpty (hints (snd fr)))) rs)"
proof -
  let ?c = "countAll t (map (\<lambda>fr. (fst fr, sortBuckets (snd fr))) rs)"
  from formatResults_output [OF assms] obtain blocks where
    o: "out = outputStart t @ join newline blocks @ statisticsSection t ?c"
    by blast
  have tot: "totalErrors ?c = sum_list (map (\<lambda>fr. length (orEmpty (errors (snd fr)))) rs)"
       "totalWarnings ?c = sum_list (map (\<lambda>fr. length (orEmpty (warnings (snd fr)))) rs)"
       "totalInfos ?c = sum_list (map (\<lambda>fr. length (orEmpty (infos (snd fr)))) rs)"
       "totalHints ?c = sum_list (map (\<lambda>fr. length (orEmpty (hints (snd fr)))) rs)"
    by (simp_all add: countAll_def foldl_tally_totals zeroCounters_def comp_def sortBuckets_sel)
  have "totalErrors ?c + totalWarnings ?c + totalInfos ?c + totalHints ?c \<noteq> 0"
    using assms(2) by (simp only: countAll_total)
  then have "statistics t ?c \<noteq> []"
    by (auto simp: statistics_def)
  then have "statisticsSection t ?c = newline @ join newline (statistics t ?c)"
    by (simp add: statisticsSection_def)
  with o have "out = (outputStart t @ join newline blocks) @ newline @ join newline (statistics t ?c)"
    by simp
  with tot show ?thesis
    by blast
qed

lemma tally_no_buckets:
  assumes "errors r = None" "warnings r = None" "infos r = None" "hints r = None"
  shows "tally t c (sortBuckets r) = c"
  using assms
  by (simp add: tally_def sortBuckets_def orEmpty_def array_sort_def lastLineWidth_def lastItem_def)

text \<open>
  C10, as amended.  An absent bucket is treated as an empty array: a run returns or
  throws the same with every absent bucket replaced by an empty array, and its totals
  and column widths are the same; a result whose four buckets are all absent leaves
  the six accumulators as they are; and a run whose results have all four buckets
  absent yields the empty string.
\<close>

theorem formatResults_absent_buckets:
  "fst (formatResults t (map (\<lambda>fr. (fst fr, withDefaults (snd fr))) rs)) = fst (formatResults t rs)
   \<and> countAll t (map (\<lambda>fr. (fst fr, sortBuckets (withDefaults (snd fr)))) rs)
       = countAll t (map (\<lambda>fr. (fst fr, sortBuckets (snd fr))) rs)
   \<and> (errors r = None \<and> warnings r = None \<and> infos r = None \<and> hints r = None
        \<longrightarrow> tally t c (sortBuckets r) = c)
   \<and> ((\<forall>fr \<in> set rs. errors (snd fr) = None \<and> warnings (snd fr) = None \<and>
                        infos (snd fr) = None \<and> hints (snd fr) = None)
        \<longrightarrow> fst (formatResults t rs) = Inr [])"
proof (intro conjI impI)
  show "fst (formatResults t (map (\<lambda>fr. (fst fr, withDefaults (snd fr))) rs)) = fst (formatResults t rs)"
    by (rule fst_formatResults_withDefaults)
  show "countAll t (map (\<lambda>fr. (fst fr, sortBuckets (withDefaults (snd fr)))) rs)
       = countAll t (map (\<lambda>fr. (fst fr, sortBuckets (snd fr))) rs)"
    by (simp only: sortBuckets_withDefaults)
  show "tally t c (sortBuckets r) = c"
    if "errors r = None \<and> warnings r = None \<and> infos r = None \<and> hints r = None"
    using that by (simp add: tally_no_buckets)
  show "fst (formatResults t rs) = Inr []"
    if a: "\<forall>fr \<in> set rs. errors (snd fr) = None \<and> warnings (snd fr) = None \<and>
                        infos (snd fr) = None \<and> hints (snd fr) = None"
  proof -
    let ?c = "countAll t (map (\<lambda>fr. (fst fr, sortBuckets (snd fr))) rs)"
    have "totalErrors ?c + totalWarnings ?c + totalInfos ?c + totalHints ?c = 0"
      using all_absent_total [OF a] by (simp only: countAll_total)
    then show ?thesis
      by (simp add: formatResults_def Let_def)
  qed
qed

theorem formatResults_absent_buckets_witness:
  "errors noMessages = None \<and> warnings noMessages = None \<and> infos noMessages = None \<and>
   hints noMessages = None \<and>
   tally plainTerminal zeroCounters (sortBuckets noMessages) = zeroCounters \<and>
   fst (formatResults plainTerminal [(''a.yaml'', noMessages), (''b.yaml'', noMessages)]) = Inr []"
proof -
  have a: "errors noMessages = None \<and> warnings noMessages = None \<and> infos noMessages = None \<and>
           hints noMessages = None"
    by (simp add: noMessages_def)
  have b: "\<forall>fr \<in> set [(''a.yaml'', noMessages), (''b.yaml'', noMessages)].
             errors (snd fr) = None \<and> warnings (snd fr) = None \<and>
             infos (snd fr) = None \<and> hints (snd fr) = None"
    by (simp add: noMessages_def)
  from formatResults_absent_buckets
         [of plainTerminal "[(''a.yaml'', noMessages), (''b.yaml'', noMessages)]" noMessages zeroCounters]
       a b
  show ?thesis
    by blast
qed

text \<open>
  C10 as stated fails: the warnings, infos and hints of the file with one error are
  absent, and the run of that file alone does not yield the empty string.
\<close>

theorem formatResults_absent_buckets_not_empty:
  "warnings errorResult = None \<and> infos errorResult = None \<and> hints errorResult = None \<and>
   fst (formatResults plainTerminal [(''error.yaml'', errorResult)])
     = Inr (newline @ ''error.yaml'' @ newline @ ''x 5 e1 r4'' @ newline @ newline @ ''1 error'') \<and>
   fst (formatResults plainTerminal [(''error.yaml'', errorResult)]) \<noteq> Inr []"
  by code_simp

section \<open>The claims about the working directory\<close>

lemma runInDirectory_resolved:
  assumes "callback (chdir directory p) = (Inr v, p')"
  shows "runInDirectory directory callback p = (Inr v, chdir (cwd p) p')"
  using assms by (simp add: runInDirectory_def Let_def chdir_def)

lemma runInDirectory_resolved_cwd:
  assumes "callback (chdir directory p) = (Inr v, p')"
  shows "cwd (snd (runInDirectory directory callback p)) = cwd p"
  using assms by (simp add: runInDirectory_def Let_def chdir_def)

lemma runInDirectory_rejected:
  assumes "callback (chdir directory p) = (Inl e, p')"
  shows "runInDirectory directory callback p = (Inl e, p')"
  using assms by (simp add: runInDirectory_def Let_def chdir_def)

text \<open>
  C1.  When the callback rejects, \<^verbatim>\<open>runInDirectory\<close> does not restore the working
  directory: called for \<^verbatim>\<open>/specs\<close> from \<^verbatim>\<open>/home/user\<close> with a callback that rejects and
  leaves the directory alone, it rejects with the process left in \<^verbatim>\<open>/specs\<close>; and
  \<^verbatim>\<open>lintFile\<close> on a document for which the Swagger builder rejects leaves the process
  in the directory of the file.
\<close>

theorem runInDirectory_rejection_keeps_directory:
  "runInDirectory ''/specs'' (\<lambda>p. (Inl (EngineError ''Error resolving $ref pointer'') :: error + unit, p))
     \<lparr> cwd = ''/home/user'' \<rparr>
     = (Inl (EngineError ''Error resolving $ref pointer''), \<lparr> cwd = ''/specs'' \<rparr>)
   \<and> lintFile exampleEngines ''api.json'' (JObject []) \<lparr> cwd = ''/home/user'' \<rparr>
     = (Inl (EngineError ''Error resolving $ref pointer''), \<lparr> cwd = ''/specs'' \<rparr>)"
  by code_simp

section \<open>The claims about the descriptor check and the command line\<close>

lemma getProp_field:
  "data \<noteq> JNull \<Longrightarrow> data \<noteq> JUndefined \<Longrightarrow> getProp data key = Inr (field data key)"
  by (cases data) (simp_all add: field_def)

lemma hasDescriptor_field:
  assumes "data \<noteq> JNull" and "data \<noteq> JUndefined"
  shows "hasDescriptor data
           = Inr (truthy (field data ''openapi'') \<or> field data ''swagger'' = JString ''2.0'')"
  using assms by (simp add: hasDescriptor_def bindE_def getProp_field)

lemma descriptorMissing_not_unable: "descriptorMissing \<noteq> ''Unable to parse file''"
  by (simp add: descriptorMissing_def)

text \<open>
  C3, as amended.  For every parsed document other than \<^verbatim>\<open>null\<close> and \<^verbatim>\<open>undefined\<close>
  that has neither a truthy \<^verbatim>\<open>openapi\<close> field nor a \<^verbatim>\<open>swagger\<close> field equal to the
  string \<^verbatim>\<open>"2.0"\<close>, \<^verbatim>\<open>lintFile\<close> fails with the descriptor-missing error, which is
  neither an error of a parser nor the error of an unsupported extension; the
  mapper of the command line logs the error's message when the files were named and
  logs nothing when they were discovered, and skips the file in both cases.
\<close>

theorem lintFile_descriptor_missing:
  assumes "readFile E filepath = Inr file"
    and "parseFileContents E (preprocessFile E (stripBom E file)) filepath = Inr data"
    and "data \<noteq> JNull" and "data \<noteq> JUndefined"
    and "\<not> truthy (field data ''openapi'')"
    and "field data ''swagger'' \<noteq> JString ''2.0''"
  shows "lintFile E filepath config p = (Inl (Error descriptorMissing), p)
         \<and> Error descriptorMissing \<noteq> Error ''Unable to parse file''
         \<and> (\<forall>m. Error descriptorMissing \<noteq> ParserError m)
         \<and> mapper t False filepath (fst (lintFile E filepath config p))
             = ([red t descriptorMissing], None)
         \<and> mapper t True filepath (fst (lintFile E filepath config p)) = ([], None)"
proof -
  have "hasDescriptor data = Inr False"
    using assms(3-6) by (simp add: hasDescriptor_field)
  with assms(1,2) have l: "lintFile E filepath config p = (Inl (Error descriptorMissing), p)"
    by (simp add: lintFile_def Let_def)
  show ?thesis
    by (simp add: l mapper_def descriptorMissing_not_unable)
qed

theorem lintFile_descriptor_missing_witness:
  "readFile exampleEngines ''notes.json'' = Inr ''{}'' \<and>
   parseFileContents exampleEngines
     (preprocessFile exampleEngines (stripBom exampleEngines ''{}'')) ''notes.json'' = Inr (JObject []) \<and>
   \<not> truthy (field (JObject []) ''openapi'') \<and>
   field (JObject []) ''swagger'' \<noteq> JString ''2.0'' \<and>
   lintFile exampleEngines ''notes.json'' (JObject []) \<lparr> cwd = ''/home/user'' \<rparr>
     = (Inl (Error descriptorMissing), \<lparr> cwd = ''/home/user'' \<rparr>) \<and>
   mapper plainTerminal False ''notes.json''
     (fst (lintFile exampleEngines ''notes.json'' (JObject []) \<lparr> cwd = ''/home/user'' \<rparr>))
     = ([red plainTerminal descriptorMissing], None) \<and>
   mapper plainTerminal True ''notes.json''
     (fst (lintFile exampleEngines ''notes.json'' (JObject []) \<lparr> cwd = ''/home/user'' \<rparr>))
     = ([], None)"
proof -
  have a: "readFile exampleEngines ''notes.json'' = Inr ''{}''"
    by code_simp
  have b: "parseFileContents exampleEngines
     (preprocessFile exampleEngines (stripBom exampleEngines ''{}'')) ''notes.json'' = Inr (JObject [])"
    by code_simp
  have c: "\<not> truthy (field (JObject []) ''openapi'')"
    by (simp add: field_def)
  have d: "field (JObject []) ''swagger'' \<noteq> JString ''2.0''"
    by (simp add: field_def)
  from lintFile_descriptor_missing [OF a b _ _ c d, of "JObject []" "\<lparr> cwd = ''/home/user'' \<rparr>" plainTerminal]
       a b c d
  show ?thesis
    by blast
qed

text \<open>
  C3 as stated fails: the document \<^verbatim>\<open>null\<close> (the JSON file \<^verbatim>\<open>empty.json\<close>) has neither
  field, \<^verbatim>\<open>lintFile\<close> fails on it with a TypeError and not with the descriptor-missing
  error, and the mapper logs that error also when the files were discovered.
\<close>

theorem lintFile_null_document:
  "\<not> truthy (field JNull ''openapi'') \<and> field JNull ''swagger'' \<noteq> JString ''2.0'' \<and>
   parseFileContents exampleEngines ''null'' ''empty.json'' = Inr JNull \<and>
   fst (lintFile exampleEngines ''empty.json'' (JObject []) \<lparr> cwd = ''/home/user'' \<rparr>)
     = Inl (TypeError (''Cannot read properties of null (reading '' @ [CHR 0x27] @ ''openapi''
                        @ [CHR 0x27] @ '')'')) \<and>
   fst (lintFile exampleEngines ''empty.json'' (JObject []) \<lparr> cwd = ''/home/user'' \<rparr>)
     \<noteq> Inl (Error descriptorMissing) \<and>
   mapper plainTerminal True ''empty.json''
     (fst (lintFile exampleEngines ''empty.json'' (JObject []) \<lparr> cwd = ''/home/user'' \<rparr>))
     = ([''Cannot read properties of null (reading '' @ [CHR 0x27] @ ''openapi'' @ [CHR 0x27] @ '')''],
        None)"
  by code_simp

lemma snd_pMap_mapper:
  "snd (pMap (\<lambda>file. mapper t a file (lint file)) files)
     = List.map_filter (\<lambda>file. case lint file of Inl e \<Rightarrow> None | Inr r \<Rightarrow> Some (file, r)) files"
  by (induction files)
     (auto simp: mapper_def List.map_filter_simps split: sum.splits prod.splits)

lemma main_invalid: "main t True verbose input globby lint = ([], Exit 2)"
  by (simp add: main_def)

lemma main_exit_status:
  assumes "results = snd (pMap (\<lambda>file. mapper t (length input = 0) file (lint file))
                        (if length input = 0 then globby [''**/*.{yaml,yml,json}''] else globby input))"
  shows "exitStatus (snd (main t invalid verbose input globby lint))
           = (if invalid \<or> results = [] then 2
              else if isl (fst (formatResults t results)) then 1
              else if list_ex (\<lambda>fr. 0 < length (orEmpty (errors (snd fr)))) results then 1
              else 0)"
  unfolding assms
  by (simp add: main_def Let_def split: prod.splits sum.splits)

text \<open>
  C9.  One named file is linted successfully; its only message is a hint, so no file
  has an error message.  The report throws, nothing catches the RangeError, and the
  exit status of the process is 1, not 0.
\<close>

theorem main_hint_only_exit:
  "\<not> list_ex (\<lambda>fr. 0 < length (orEmpty (errors (snd fr)))) [(''hint.yaml'', hintResult)] \<and>
   main plainTerminal False False [''hint.yaml''] (\<lambda>files. files) (\<lambda>file. Inr hintResult)
     = ([], Uncaught (RangeError ''Invalid count value: -28'')) \<and>
   exitStatus (snd (main plainTerminal False False [''hint.yaml''] (\<lambda>files. files)
                      (\<lambda>file. Inr hintResult))) = 1"
  by code_simp

section \<open>The claim about the configuration\<close>

lemma mergeProps_empty [simp]: "mergeProps a [] = a"
  by (induction a) simp_all

lemma mergeOptions_empty: "mergeOptions (JObject a) (JObject []) = JObject a"
  by simp

lemma map_of_mergeProps:
  "map_of (mergeProps a b) k
     = (case map_of a k of
          None \<Rightarrow> None
        | Some v \<Rightarrow> Some (case map_of b k of None \<Rightarrow> v | Some w \<Rightarrow> mergeOptions v w))"
  by (induction a) (auto split: option.splits)

lemma map_of_filter_new:
  "map_of (filter (\<lambda>kv. map_of a (fst kv) = None) b) k
     = (if map_of a k = None then map_of b k else None)"
  by (induction b) auto

lemma map_of_merged:
  "map_of (mergeProps a b @ filter (\<lambda>kv. map_of a (fst kv) = None) b) k
     = (case map_of a k of
          None \<Rightarrow> map_of b k
        | Some v \<Rightarrow> Some (case map_of b k of None \<Rightarrow> v | Some w \<Rightarrow> mergeOptions v w))"
  by (simp add: map_add_def map_of_mergeProps map_of_filter_new split: option.splits)

lemma lookupPath_merged:
  "lookupPath (k # ks) (mergeOptions (JObject ka) (JObject kb))
     = (case map_of ka k of
          None \<Rightarrow> (case map_of kb k of None \<Rightarrow> None | Some w \<Rightarrow> lookupPath ks w)
        | Some v \<Rightarrow> lookupPath ks (case map_of kb k of None \<Rightarrow> v | Some w \<Rightarrow> mergeOptions v w))"
  by (simp only: mergeOptions.simps lookupPath.simps map_of_merged split: option.splits) simp

lemma unspecified_lookupPath: "unspecified p b \<Longrightarrow> lookupPath p b = None"
  by (induction p b rule: unspecified.induct) (auto split: option.splits)

lemma mergeOptions_override_leaf: "\<not> isObject b \<Longrightarrow> mergeOptions a b = b"
  by (cases a; cases b) simp_all

lemma mergeOptions_default_leaf: "\<not> isObject a \<Longrightarrow> mergeOptions a b = b"
  by (cases a) simp_all

lemma mergeOptions_inherits:
  "unspecified p b \<Longrightarrow> lookupPath p (mergeOptions a b) = lookupPath p a"
proof (induction p arbitrary: a b)
  case Nil
  then show ?case by simp
next
  case (Cons k ks)
  from Cons.prems obtain kb where b: "b = JObject kb"
    by (cases b) simp_all
  show ?case
  proof (cases "isObject a")
    case False
    then have "lookupPath (k # ks) a = None"
      by (cases a) simp_all
    with False Cons.prems show ?thesis
      by (simp add: mergeOptions_default_leaf unspecified_lookupPath)
  next
    case True
    then obtain ka where a: "a = JObject ka"
      by (cases a) simp_all
    show ?thesis
    proof (cases "map_of kb k")
      case None
      then show ?thesis
        unfolding a b lookupPath_merged by (simp split: option.splits)
    next
      case (Some w)
      with Cons.prems b have u: "unspecified ks w"
        by simp
      show ?thesis
      proof (cases "map_of ka k")
        case None
        with Some u show ?thesis
          unfolding a b lookupPath_merged by (simp add: unspecified_lookupPath)
      next
        case ka: (Some v)
        with Some Cons.IH [OF u, of v] show ?thesis
          unfolding a b lookupPath_merged by simp
      qed
    qed
  qed
qed

lemma mergeOptions_override_wins:
  "lookupPath p b = Some v \<Longrightarrow> \<not> isObject v \<Longrightarrow> lookupPath p (mergeOptions a b) = Some v"
proof (induction p arbitrary: a b)
  case Nil
  then have "b = v" and "\<not> isObject b"
    by simp_all
  then show ?case
    by (simp add: mergeOptions_override_leaf)
next
  case (Cons k ks)
  from Cons.prems obtain kb w where b: "b = JObject kb" and w: "map_of kb k = Some w"
    and l: "lookupPath ks w = Some v"
    by (cases b) (auto split: option.splits)
  show ?case
  proof (cases "isObject a")
    case False
    with Cons.prems show ?thesis
      by (simp add: mergeOptions_default_leaf)
  next
    case True
    then obtain ka where a: "a = JObject ka"
      by (cases a) simp_all
    show ?thesis
    proof (cases "map_of ka k")
      case None
      with w l show ?thesis
        unfolding a b lookupPath_merged by simp
    next
      case (Some u)
      with w Cons.IH [OF l Cons.prems(2), of u] show ?thesis
        unfolding a b lookupPath_merged by simp
    qed
  qed
qed

lemma defaultConfig_merge_empty: "mergeOptions defaultConfig (JObject []) = defaultConfig"
  unfolding defaultConfig_def by (rule mergeOptions_empty)

text \<open>
  C8.  Merging the default configuration with an empty override yields the default
  configuration; and for every override, a path of keys that the override leaves
  unspecified has in the merged configuration the value it has in the defaults,
  while a path under which the override holds a value that is not an object has the
  override's value: the override wins leaf by leaf, and an override for one rule
  does not replace the subtree of the defaults around it.
\<close>

theorem mergeOptions_defaultConfig:
  "mergeOptions defaultConfig (JObject []) = defaultConfig
   \<and> (unspecified p override
        \<longrightarrow> lookupPath p (mergeOptions defaultConfig override) = lookupPath p defaultConfig)
   \<and> (lookupPath p override = Some v \<and> \<not> isObject v
        \<longrightarrow> lookupPath p (mergeOptions defaultConfig override) = Some v)"
  by (simp add: defaultConfig_merge_empty mergeOptions_inherits mergeOptions_override_wins)

theorem mergeOptions_defaultConfig_witness:
  "unspecified [''shared'', ''operations'', ''no_summary''] exampleOverride \<and>
   lookupPath [''shared'', ''operations'', ''no_summary''] defaultConfig = Some (JString ''warning'') \<and>
   lookupPath [''shared'', ''operations'', ''no_summary''] (mergeOptions defaultConfig exampleOverride)
     = Some (JString ''warning'') \<and>
   lookupPath [''shared'', ''operations'', ''unused_tag''] defaultConfig = Some (JString ''error'') \<and>
   lookupPath [''shared'', ''operations'', ''unused_tag''] exampleOverride = Some (JString ''warning'') \<and>
   \<not> isObject (JString ''warning'') \<and>
   lookupPath [''shared'', ''operations'', ''unused_tag''] (mergeOptions defaultConfig exampleOverride)
     = Some (JString ''warning'')"
proof -
  have u: "unspecified [''shared'', ''operations'', ''no_summary''] exampleOverride"
    by code_simp
  have d: "lookupPath [''shared'', ''operations'', ''no_summary''] defaultConfig = Some (JString ''warning'')"
    by code_simp
  have e: "lookupPath [''shared'', ''operations'', ''unused_tag''] defaultConfig = Some (JString ''error'')"
    by code_simp
  have o: "lookupPath [''shared'', ''operations'', ''unused_tag''] exampleOverride = Some (JString ''warning'')"
    by code_simp
  have l: "\<not> isObject (JString ''warning'')"
    by simp
  from mergeOptions_defaultConfig [of "[''shared'', ''operations'', ''no_summary'']" exampleOverride]
       u d
  have m1: "lookupPath [''shared'', ''operations'', ''no_summary''] (mergeOptions defaultConfig exampleOverride)
     = Some (JString ''warning'')"
    by simp
  from mergeOptions_defaultConfig [of "[''shared'', ''operations'', ''unused_tag'']" exampleOverride
         "JString ''warning''"] o l
  have m2: "lookupPath [''shared'', ''operations'', ''unused_tag''] (mergeOptions defaultConfig exampleOverride)
     = Some (JString ''warning'')"
    by simp
  from u d m1 e o l m2 show ?thesis
    by (intro conjI)
qed

section \<open>When the report throws\<close>

lemma mapE_Inl:
  assumes "x \<in> set xs" and "isl (f x)"
  shows "isl (mapE f xs)"
  using assms
  by (induction xs) (auto simp: bindE_def split: sum.splits)

lemma bindE_isl: "isl m \<Longrightarrow> isl (bindE m f)"
  by (cases m) (simp_all add: bindE_def)

lemma formatLine_too_wide:
  assumes "w2 < stringWidth t (message m)"
  shows "isl (formatLine t type w1 w2 m)"
  using assms by (simp add: formatLine_def repeat_def bindE_def split: sum.splits)

lemma formatBlock_too_wide:
  assumes "m \<in> set (shints r) \<union> set (sinfos r)" and "w2 < stringWidth t (message m)"
  shows "isl (formatBlock t w1 w2 (file, r))"
proof -
  have l: "isl (formatLine t info w1 w2 m)"
    using assms(2) by (rule formatLine_too_wide)
  from assms(1) consider "m \<in> set (shints r)" | "m \<in> set (sinfos r)"
    by blast
  then show ?thesis
  proof cases
    case 1
    then have "isl (mapE (formatLine t info w1 w2) (shints r))"
      using l by (rule mapE_Inl)
    then show ?thesis
      by (simp add: formatBlock_def Let_def bindE_isl)
  next
    case 2
    then have i: "isl (mapE (formatLine t info w1 w2) (sinfos r))"
      using l by (rule mapE_Inl)
    show ?thesis
    proof (cases "mapE (formatLine t info w1 w2) (shints r)")
      case (Inl e)
      then show ?thesis
        by (simp add: formatBlock_def Let_def bindE_def)
    next
      case (Inr hs)
      from i obtain e where "mapE (formatLine t info w1 w2) (sinfos r) = Inl e"
        by (cases "mapE (formatLine t info w1 w2) (sinfos r)") simp_all
      with Inr show ?thesis
        by (simp add: formatBlock_def Let_def bindE_def)
    qed
  qed
qed

lemma foldl_max_width_bound:
  assumes "w0 \<le> B" and "\<forall>m \<in> set ms. stringWidth t (message m) \<le> B"
  shows "foldl (\<lambda>w m. max (stringWidth t (message m)) w) w0 ms \<le> B"
  using assms by (induction ms arbitrary: w0) simp_all

lemma maxMessageWidth_bound:
  assumes "maxMessageWidth c0 \<le> B"
    and "\<forall>fr \<in> set rs. \<forall>m \<in> set (serrors (snd fr)) \<union> set (swarnings (snd fr)).
           stringWidth t (message m) \<le> B"
  shows "maxMessageWidth (foldl (\<lambda>c fr. tally t c (snd fr)) c0 rs) \<le> B"
  using assms
proof (induction rs arbitrary: c0)
  case Nil
  then show ?case by simp
next
  case (Cons fr rs)
  have "maxMessageWidth (tally t c0 (snd fr)) \<le> B"
    using Cons.prems by (simp add: tally_def foldl_max_width_bound)
  with Cons show ?case
    by simp
qed

lemma set_sortBuckets:
  "set (serrors (sortBuckets r)) = set (orEmpty (errors r))"
  "set (swarnings (sortBuckets r)) = set (orEmpty (warnings r))"
  "set (sinfos (sortBuckets r)) = set (orEmpty (infos r))"
  "set (shints (sortBuckets r)) = set (orEmpty (hints r))"
  by (simp_all add: sortBuckets_sel)

text \<open>
  The report throws whenever some hint or info of the run is wider than every error
  and every warning of the run (and not of width zero): the message column is as wide
  as the widest error or warning, and the padding of that hint or info is negative.
\<close>

lemma formatResults_throws_when_wider:
  assumes fr: "fr \<in> set rs"
    and m: "m \<in> set (orEmpty (hints (snd fr))) \<union> set (orEmpty (infos (snd fr)))"
    and pos: "0 < stringWidth t (message m)"
    and wider: "\<forall>fr' \<in> set rs. \<forall>m' \<in> set (orEmpty (errors (snd fr'))) \<union> set (orEmpty (warnings (snd fr'))).
                  stringWidth t (message m') < stringWidth t (message m)"
  shows "isl (fst (formatResults t rs))"
proof -
  let ?g = "\<lambda>fr. (fst fr, sortBuckets (snd fr))"
  let ?c = "countAll t (map ?g rs)"
  let ?B = "stringWidth t (message m) - 1"
  have "maxMessageWidth ?c \<le> ?B"
    unfolding countAll_def
  proof (rule maxMessageWidth_bound)
    show "maxMessageWidth zeroCounters \<le> ?B"
      by (simp add: zeroCounters_def)
    show "\<forall>x \<in> set (map ?g rs). \<forall>m' \<in> set (serrors (snd x)) \<union> set (swarnings (snd x)).
            stringWidth t (message m') \<le> ?B"
    proof (intro ballI)
      fix x m'
      assume x: "x \<in> set (map ?g rs)"
        and m': "m' \<in> set (serrors (snd x)) \<union> set (swarnings (snd x))"
      from x obtain fr' where fr': "fr' \<in> set rs" and "x = ?g fr'"
        by auto
      with m' have "m' \<in> set (orEmpty (errors (snd fr'))) \<union> set (orEmpty (warnings (snd fr')))"
        by (simp add: set_sortBuckets)
      with wider fr' have "stringWidth t (message m') < stringWidth t (message m)"
        by blast
      then show "stringWidth t (message m') \<le> ?B"
        by simp
    qed
  qed
  with pos have w: "maxMessageWidth ?c < stringWidth t (message m)"
    by simp
  have "messageCount (snd fr) > 0"
    using m by (auto simp: messageCount_def)
  then have "0 < totalMessages rs"
    using fr unfolding totalMessages_def
    by (induction rs) auto
  then have nz: "totalErrors ?c + totalWarnings ?c + totalInfos ?c + totalHints ?c \<noteq> 0"
    by (simp only: countAll_total)
  have "m \<in> set (shints (sortBuckets (snd fr))) \<union> set (sinfos (sortBuckets (snd fr)))"
    using m by (simp add: set_sortBuckets)
  then have "isl (formatBlock t (maxLineWidth ?c) (maxMessageWidth ?c) (fst fr, sortBuckets (snd fr)))"
    using w by (rule formatBlock_too_wide)
  moreover have "?g fr \<in> set (array_sort compareResults (map ?g rs))"
    using fr by (simp add: array_sort_compareResults)
  ultimately have "isl (mapE (formatBlock t (maxLineWidth ?c) (maxMessageWidth ?c))
                      (array_sort compareResults (map ?g rs)))"
    by (intro mapE_Inl [where x = "?g fr"]) simp_all
  then have "isl (bindE (mapE (formatBlock t (maxLineWidth ?c) (maxMessageWidth ?c))
                      (array_sort compareResults (map ?g rs)))
                (\<lambda>blocks. Inr (outputStart t @ join newline blocks @ statisticsSection t ?c)))"
    by (rule bindE_isl)
  with nz show ?thesis
    unfolding formatResults_def Let_def fst_conv by (simp only: if_False)
qed

end
